theory Spec2Isabelle
  imports Complex_Main "HOL-Library.Word"
begin

section \<open>Images\<close>

text \<open>
  Modelled from the spec: \<^verbatim>\<open>jxl/image.h\<close> (the types \<^verbatim>\<open>ImageF\<close>, \<^verbatim>\<open>Image3F\<close> and
  \<^verbatim>\<open>Image3B\<close>) is not among the sources.  The spec's data model calls a planar image a
  rectangular grid of samples, one grid per channel, row-major, with explicit width and
  height.  A \<^verbatim>\<open>float\<close> or \<^verbatim>\<open>double\<close> sample is a real number here: rounding is not modelled.
\<close>

record 'a Plane =
  xsize :: nat
  ysize :: nat
  rows :: "'a list list"

record 'a Image3 =
  plane0 :: "'a Plane"
  plane1 :: "'a Plane"
  plane2 :: "'a Plane"

type_synonym ImageF = "real Plane"
type_synonym Image3F = "real Image3"
type_synonym Image3B = "8 word Image3"

definition Image3_xsize :: "'a Image3 \<Rightarrow> nat" where
  "Image3_xsize im = xsize (plane0 im)"

definition Image3_ysize :: "'a Image3 \<Rightarrow> nat" where
  "Image3_ysize im = ysize (plane0 im)"

definition empty_Plane :: "'a Plane" where
  "empty_Plane = \<lparr>xsize = 0, ysize = 0, rows = []\<rparr>"

definition empty_Image3 :: "'a Image3" where
  "empty_Image3 = \<lparr>plane0 = empty_Plane, plane1 = empty_Plane, plane2 = empty_Plane\<rparr>"

definition StaticCastPlane :: "8 word Plane \<Rightarrow> ImageF" where
  "StaticCastPlane p =
     \<lparr>xsize = xsize p, ysize = ysize p, rows = map (map (\<lambda>b. real (unat b))) (rows p)\<rparr>"

definition StaticCastImage3 :: "Image3B \<Rightarrow> Image3F" where
  "StaticCastImage3 im =
     \<lparr>plane0 = StaticCastPlane (plane0 im),
      plane1 = StaticCastPlane (plane1 im),
      plane2 = StaticCastPlane (plane2 im)\<rparr>"


section \<open>Pooling a difference map\<close>

text \<open>
  Modelled from the spec: \<^verbatim>\<open>ButteraugliScoreFromDiffmap\<close> is declared in butteraugli.h and
  the p-norm of \<^verbatim>\<open>tools/butteraugli_pnorm.h\<close> is called by the tool, but the code of neither
  is among the sources.  The spec's Score Reducer reduces the Difference Map to a scalar
  "using an order-p norm over all pixel values (p = 3 in the reference configuration)", and
  its glossary gives the norm as the p-th root of the sum of the p-th powers of the values.
\<close>

definition pixels :: "ImageF \<Rightarrow> real list" where
  "pixels d = concat (rows d)"

definition pnorm_pool :: "nat \<Rightarrow> ImageF \<Rightarrow> real" where
  "pnorm_pool p d = root p (\<Sum>v\<leftarrow>pixels d. v ^ p)"


text \<open>
  One difference map dominates another when they have the same shape and each of its
  pixels is at least the other's pixel; the spec's Difference Map holds nonnegative values.
\<close>

definition dominates :: "ImageF \<Rightarrow> ImageF \<Rightarrow> bool" where
  "dominates a b = list_all2 (list_all2 (\<lambda>x y. y \<le> x)) (rows a) (rows b)"

definition nonnegative :: "ImageF \<Rightarrow> bool" where
  "nonnegative d = list_all (\<lambda>v. 0 \<le> v) (pixels d)"


section \<open>The command-line tool (tools/butteraugli\_main.cc)\<close>

subsection \<open>The collaborators the tool calls\<close>

text \<open>
  \<^verbatim>\<open>CodecInOut\<close> (\<^verbatim>\<open>jxl/codec_in_out.h\<close>, not among the sources): the tool uses its decoder
  hints, its main image and that image's size.
\<close>

record CodecInOut =
  dec_hints :: "(string \<times> string) list"
  io_Main :: Image3F

definition new_CodecInOut :: CodecInOut where
  "new_CodecInOut = \<lparr>dec_hints = [], io_Main = empty_Image3\<rparr>"

definition io_xsize :: "CodecInOut \<Rightarrow> nat" where
  "io_xsize io = Image3_xsize (io_Main io)"

definition io_ysize :: "CodecInOut \<Rightarrow> nat" where
  "io_ysize io = Image3_ysize (io_Main io)"

definition Add_hint :: "string \<Rightarrow> string \<Rightarrow> CodecInOut \<Rightarrow> CodecInOut" where
  "Add_hint k v io = io\<lparr>dec_hints := dec_hints io @ [(k, v)]\<rparr>"

definition SetFromImage :: "Image3F \<Rightarrow> CodecInOut \<Rightarrow> CodecInOut" where
  "SetFromImage im io = io\<lparr>io_Main := im\<rparr>"

text \<open>
  The functions the tool calls whose code is outside the sources are parameters of the
  model.  A \<^verbatim>\<open>Status\<close> that is false is \<open>None\<close> (or \<open>False\<close> where nothing else is
  returned).  \<^verbatim>\<open>SetFromFile\<close> fills the \<^verbatim>\<open>CodecInOut\<close> it is given;
  \<^verbatim>\<open>ButteraugliDistance\<close> returns the distance and fills the distance map.
  The environment also says whether standard output is a terminal, which decides how stdio
  buffers it.
\<close>

record env =
  SetFromFile :: "string \<Rightarrow> CodecInOut \<Rightarrow> CodecInOut option"
  ButteraugliDistance :: "Image3F \<Rightarrow> Image3F \<Rightarrow> real \<Rightarrow> real \<times> ImageF"
  ComputeDistanceP :: "ImageF \<Rightarrow> real \<Rightarrow> real"
  ButteraugliFuzzyInverse :: "real \<Rightarrow> real"
  CreateHeatMapImage :: "ImageF \<Rightarrow> real \<Rightarrow> real \<Rightarrow> Image3B"
  EncodeImagePNG :: "CodecInOut \<Rightarrow> nat \<Rightarrow> 8 word list option"
  WriteFile :: "8 word list \<Rightarrow> string \<Rightarrow> bool"
  stdout_is_terminal :: bool

subsection \<open>What a run of the process leaves behind\<close>

text \<open>
  The lines that reached standard output, the lines \<^verbatim>\<open>printf\<close> has put into the stdio
  buffer of standard output and that were not written yet, the diagnostics the tool's own
  \<^verbatim>\<open>fprintf(stderr, ...)\<close> calls write (standard error is not buffered), and the calls made
  to the collaborators, each in order.  The formats (\<^verbatim>\<open>"%.10f\n"\<close>, \<^verbatim>\<open>"%g-norm: %f\n"\<close>, ...)
  are kept as constructors with the values printed.
\<close>

datatype out_line = Distance_line real | PNorm_line real real

datatype diagnostic =
  Usage "string option"
  | Failed_to_read string
  | Width_mismatch nat nat
  | Height_mismatch nat nat

datatype call =
  Call_SetFromFile string CodecInOut
  | Call_ButteraugliDistance Image3F Image3F real
  | Call_ComputeDistanceP ImageF real
  | Call_ButteraugliFuzzyInverse real
  | Call_CreateHeatMapImage ImageF real real
  | Call_EncodeImagePNG CodecInOut nat
  | Call_WriteFile "8 word list" string

record process =
  stdout :: "out_line list"
  stdout_buffer :: "out_line list"
  stderr :: "diagnostic list"
  calls :: "call list"

definition start :: process where
  "start = \<lparr>stdout = [], stdout_buffer = [], stderr = [], calls = []\<rparr>"

text \<open>
  The source never calls \<^verbatim>\<open>fflush\<close>.  \<^verbatim>\<open>printf\<close> puts its line into the buffer; every
  format of the tool ends in a newline, so the buffer is written at once when standard
  output is a terminal (line buffered), and otherwise (a pipe or a file, fully buffered)
  only when the process exits by returning from \<^verbatim>\<open>main\<close>.
\<close>

definition flush_stdout :: "process \<Rightarrow> process" where
  "flush_stdout s = s\<lparr>stdout := stdout s @ stdout_buffer s, stdout_buffer := []\<rparr>"

definition printf :: "env \<Rightarrow> out_line \<Rightarrow> process \<Rightarrow> process" where
  "printf E l s =
     (let s1 = s\<lparr>stdout_buffer := stdout_buffer s @ [l]\<rparr>
      in if stdout_is_terminal E then flush_stdout s1 else s1)"

text \<open>
  Every line handed to \<^verbatim>\<open>printf\<close> so far, written or still in the buffer.
\<close>

definition printed :: "process \<Rightarrow> out_line list" where
  "printed s = stdout s @ stdout_buffer s"

definition fprintf_stderr :: "diagnostic \<Rightarrow> process \<Rightarrow> process" where
  "fprintf_stderr d s = s\<lparr>stderr := stderr s @ [d]\<rparr>"

definition called :: "call \<Rightarrow> process \<Rightarrow> process" where
  "called c s = s\<lparr>calls := calls s @ [c]\<rparr>"

text \<open>
  \<^verbatim>\<open>JXL_CHECK(c)\<close> (\<^verbatim>\<open>jxl/base/status.h\<close>, not among the sources) ends the process when
  \<^verbatim>\<open>c\<close> is false: control does not come back to the caller, so \<^verbatim>\<open>main\<close> never reaches its
  \<^verbatim>\<open>return\<close>, and the process does not end by \<^verbatim>\<open>exit\<close>, so what is still in the buffer of
  standard output is never written.  A function either returns a value or stops at a
  failed check.
\<close>

datatype 'a checked = Returns 'a | JXL_CHECK_failed

datatype exit_status = Exit int | Abort

subsection \<open>WritePNG\<close>

text \<open>
  \<^verbatim>\<open>JXL_CHECK(EncodeImagePNG(&io, io.Main().c_current(), 8, &pool, &compressed));\<close>
  \<^verbatim>\<open>return WriteFile(compressed, filename);\<close>
  The thread pool, the metadata of \<^verbatim>\<open>io\<close> and the vector \<^verbatim>\<open>rgb\<close>, which is allocated and
  never used, are left out.
\<close>

definition WritePNG :: "env \<Rightarrow> Image3B \<Rightarrow> string \<Rightarrow> process \<Rightarrow> bool checked \<times> process" where
  "WritePNG E img filename s =
     (let io = SetFromImage (StaticCastImage3 img) new_CodecInOut;
          s1 = called (Call_EncodeImagePNG io 8) s
      in case EncodeImagePNG E io 8 of
           None \<Rightarrow> (JXL_CHECK_failed, s1)
         | Some compressed \<Rightarrow>
             (Returns (WriteFile E compressed filename),
              called (Call_WriteFile compressed filename) s1))"

subsection \<open>RunButteraugli\<close>

text \<open>
  \<^verbatim>\<open>const float kHfAsymmetry = 0.8;\<close> and, further down, \<^verbatim>\<open>double p = 3.0;\<close>.  The heat map is
  written under \<^verbatim>\<open>JXL_CHECK(WritePNG(heatmap, distmap_filename))\<close>: a \<^verbatim>\<open>WritePNG\<close> that returns
  false stops the process there.
\<close>

definition kHfAsymmetry :: real where
  "kHfAsymmetry = 0.8"

text \<open>
  \<^verbatim>\<open>CodecInOut io; if (!colorspace_hint.empty()) io.dec_hints.Add("color_space", colorspace_hint);\<close>
  which the source does for \<^verbatim>\<open>io1\<close> and again for \<^verbatim>\<open>io2\<close>.
\<close>

definition hinted :: "string \<Rightarrow> CodecInOut" where
  "hinted colorspace_hint =
     (if colorspace_hint \<noteq> [] then Add_hint ''color_space'' colorspace_hint new_CodecInOut
      else new_CodecInOut)"

definition RunButteraugli ::
  "env \<Rightarrow> string \<Rightarrow> string \<Rightarrow> string \<Rightarrow> string \<Rightarrow> process \<Rightarrow> bool checked \<times> process" where
  "RunButteraugli E pathname1 pathname2 distmap_filename colorspace_hint s =
     (let io1 = hinted colorspace_hint;
          s1 = called (Call_SetFromFile pathname1 io1) s
      in case SetFromFile E pathname1 io1 of
           None \<Rightarrow> (Returns False, fprintf_stderr (Failed_to_read pathname1) s1)
         | Some io1 \<Rightarrow>
      (let io2 = hinted colorspace_hint;
           s2 = called (Call_SetFromFile pathname2 io2) s1
       in case SetFromFile E pathname2 io2 of
            None \<Rightarrow> (Returns False, fprintf_stderr (Failed_to_read pathname2) s2)
          | Some io2 \<Rightarrow>
       if io_xsize io1 \<noteq> io_xsize io2 then
         (Returns False, fprintf_stderr (Width_mismatch (io_xsize io1) (io_xsize io2)) s2)
       else if io_ysize io1 \<noteq> io_ysize io2 then
         (Returns False, fprintf_stderr (Height_mismatch (io_ysize io1) (io_ysize io2)) s2)
       else
         (let (distance, distmap) =
                ButteraugliDistance E (io_Main io1) (io_Main io2) kHfAsymmetry;
              s3 = called (Call_ButteraugliDistance (io_Main io1) (io_Main io2) kHfAsymmetry) s2;
              s4 = printf E (Distance_line distance) s3;
              p = 3.0;
              pnorm = ComputeDistanceP E distmap p;
              s5 = called (Call_ComputeDistanceP distmap p) s4;
              s6 = printf E (PNorm_line p pnorm) s5
          in if distmap_filename \<noteq> [] then
               (let good = ButteraugliFuzzyInverse E 1.5;
                    s7 = called (Call_ButteraugliFuzzyInverse 1.5) s6;
                    bad = ButteraugliFuzzyInverse E 0.5;
                    s8 = called (Call_ButteraugliFuzzyInverse 0.5) s7;
                    heatmap = CreateHeatMapImage E distmap good bad;
                    s9 = called (Call_CreateHeatMapImage distmap good bad) s8
                in case WritePNG E heatmap distmap_filename s9 of
                     (Returns True, s10) \<Rightarrow> (Returns True, s10)
                   | (Returns False, s10) \<Rightarrow> (JXL_CHECK_failed, s10)
                   | (JXL_CHECK_failed, s10) \<Rightarrow> (JXL_CHECK_failed, s10))
             else (Returns True, s6))))"

subsection \<open>main\<close>

text \<open>
  One turn of the loop \<^verbatim>\<open>for (int i = 2; i < argc; i++)\<close>: its two \<^verbatim>\<open>if\<close> statements, the
  second one reading \<^verbatim>\<open>argv[i]\<close> after the first may have advanced \<^verbatim>\<open>i\<close>, and then
  \<^verbatim>\<open>i++\<close>.  \<^verbatim>\<open>argc\<close> is the length of \<^verbatim>\<open>argv\<close>.
\<close>

definition loop_body :: "string list \<Rightarrow> nat \<times> string \<times> string \<Rightarrow> nat \<times> string \<times> string" where
  "loop_body argv st =
     (case st of (i, distmap, colorspace) \<Rightarrow>
        (let (i1, distmap1) =
               (if argv ! i = ''--distmap'' \<and> i + 1 < length argv
                then (i + 1, argv ! (i + 1)) else (i, distmap));
             (i2, colorspace2) =
               (if argv ! i1 = ''--colorspace'' \<and> i1 + 1 < length argv
                then (i1 + 1, argv ! (i1 + 1)) else (i1, colorspace))
         in (i2 + 1, distmap1, colorspace2)))"

function for_loop :: "string list \<Rightarrow> nat \<times> string \<times> string \<Rightarrow> string \<times> string" where
  "for_loop argv (i, distmap, colorspace) =
     (if i < length argv then for_loop argv (loop_body argv (i, distmap, colorspace))
      else (distmap, colorspace))"
  by pat_completeness auto
termination
  by (relation "measure (\<lambda>(argv, i, d, c). length argv - i)")
     (auto simp: loop_body_def split: if_splits)

text \<open>
  \<^verbatim>\<open>return jxl::RunButteraugli(argv[1], argv[2], distmap, colorspace) ? 0 : 1;\<close>
  which is not reached when a \<^verbatim>\<open>JXL_CHECK\<close> failed.  Returning from \<^verbatim>\<open>main\<close> exits the
  process, which writes the buffer of standard output.  The usage message prints
  \<^verbatim>\<open>argv[0]\<close>, which is absent when \<^verbatim>\<open>argc\<close> is 0.
\<close>

definition exit_of :: "bool checked \<times> process \<Rightarrow> exit_status \<times> process" where
  "exit_of r =
     (case r of
        (Returns True, s) \<Rightarrow> (Exit 0, flush_stdout s)
      | (Returns False, s) \<Rightarrow> (Exit 1, flush_stdout s)
      | (JXL_CHECK_failed, s) \<Rightarrow> (Abort, s))"

definition main :: "env \<Rightarrow> string list \<Rightarrow> exit_status \<times> process" where
  "main E argv =
     (if length argv < 3 then
        (Exit 1,
         flush_stdout
           (fprintf_stderr (Usage (case argv of [] \<Rightarrow> None | a # _ \<Rightarrow> Some a)) start))
      else
        (case for_loop argv (2, [], []) of
           (distmap, colorspace) \<Rightarrow>
             exit_of (RunButteraugli E (argv ! 1) (argv ! 2) distmap colorspace start)))"

subsection \<open>Names for what the theorems talk about\<close>

text \<open>
  The options the loop of \<^verbatim>\<open>main\<close> leaves in \<^verbatim>\<open>distmap\<close> and \<^verbatim>\<open>colorspace\<close>.
\<close>

definition distmap_option :: "string list \<Rightarrow> string" where
  "distmap_option argv = fst (for_loop argv (2, [], []))"

definition colorspace_option :: "string list \<Rightarrow> string" where
  "colorspace_option argv = snd (for_loop argv (2, [], []))"

text \<open>
  The \<^verbatim>\<open>CodecInOut\<close> that \<^verbatim>\<open>WritePNG\<close> encodes for a distance map, and whether the heat map
  reaches its file: \<^verbatim>\<open>EncodeImagePNG\<close> and \<^verbatim>\<open>WriteFile\<close> both succeed.
\<close>

definition heatmap_io :: "env \<Rightarrow> ImageF \<Rightarrow> CodecInOut" where
  "heatmap_io E distmap =
     SetFromImage
       (StaticCastImage3
          (CreateHeatMapImage E distmap (ButteraugliFuzzyInverse E 1.5) (ButteraugliFuzzyInverse E 0.5)))
       new_CodecInOut"

definition heatmap_written :: "env \<Rightarrow> ImageF \<Rightarrow> string \<Rightarrow> bool" where
  "heatmap_written E distmap filename =
     (case EncodeImagePNG E (heatmap_io E distmap) 8 of
        None \<Rightarrow> False
      | Some compressed \<Rightarrow> WriteFile E compressed filename)"

text \<open>
  What a run that reads both images and finds them of the same size hands to \<^verbatim>\<open>printf\<close>,
  and the first four calls it makes.
\<close>

definition score_lines :: "env \<Rightarrow> CodecInOut \<Rightarrow> CodecInOut \<Rightarrow> out_line list" where
  "score_lines E io1 io2 =
     (let r = ButteraugliDistance E (io_Main io1) (io_Main io2) kHfAsymmetry
      in [Distance_line (fst r), PNorm_line 3 (ComputeDistanceP E (snd r) 3)])"

definition first_calls ::
  "env \<Rightarrow> string \<Rightarrow> string \<Rightarrow> string \<Rightarrow> CodecInOut \<Rightarrow> CodecInOut \<Rightarrow> call list" where
  "first_calls E p1 p2 h io1 io2 =
     (let r = ButteraugliDistance E (io_Main io1) (io_Main io2) kHfAsymmetry
      in [Call_SetFromFile p1 (hinted h), Call_SetFromFile p2 (hinted h),
          Call_ButteraugliDistance (io_Main io1) (io_Main io2) kHfAsymmetry,
          Call_ComputeDistanceP (snd r) 3])"

subsection \<open>A concrete environment\<close>

text \<open>
  Four files that decode (one of them named \<^verbatim>\<open>--distmap\<close>, one wider than the others), a
  comparison that returns a fixed distance map, a file system where one output path
  cannot be written, and standard output going to a pipe.  The theorems below are run on
  it.
\<close>

definition gray :: "nat \<Rightarrow> nat \<Rightarrow> real list list \<Rightarrow> Image3F" where
  "gray w h rs =
     \<lparr>plane0 = \<lparr>xsize = w, ysize = h, rows = rs\<rparr>,
      plane1 = \<lparr>xsize = w, ysize = h, rows = rs\<rparr>,
      plane2 = \<lparr>xsize = w, ysize = h, rows = rs\<rparr>\<rparr>"

definition example_distmap :: ImageF where
  "example_distmap = \<lparr>xsize = 2, ysize = 2, rows = [[1, 0], [0, 2]]\<rparr>"

definition example_env :: env where
  "example_env =
     \<lparr>SetFromFile = (\<lambda>path io.
        if path = ''ref.png'' then Some (SetFromImage (gray 2 2 [[1, 1], [1, 1]]) io)
        else if path = ''dist.png'' then Some (SetFromImage (gray 2 2 [[1, 1], [1, 2]]) io)
        else if path = ''wide.png'' then Some (SetFromImage (gray 3 2 [[1, 1, 1], [1, 1, 1]]) io)
        else if path = ''--distmap'' then Some (SetFromImage (gray 2 2 [[1, 1], [1, 1]]) io)
        else None),
      ButteraugliDistance = (\<lambda>a b h. (2, example_distmap)),
      ComputeDistanceP = (\<lambda>d p. 1),
      ButteraugliFuzzyInverse = (\<lambda>seek. 2 - seek),
      CreateHeatMapImage = (\<lambda>d good bad. empty_Image3),
      EncodeImagePNG = (\<lambda>io bits. Some []),
      WriteFile = (\<lambda>bytes filename. filename \<noteq> ''/nonexistent/heat.png''),
      stdout_is_terminal = False\<rparr>"


section \<open>Properties of the tool\<close>

declare for_loop.simps [simp del]

lemma Run_read1_fails:
  "SetFromFile E p1 (hinted h) = None \<Longrightarrow>
   RunButteraugli E p1 p2 d h s =
     (Returns False,
      fprintf_stderr (Failed_to_read p1) (called (Call_SetFromFile p1 (hinted h)) s))"
  by (simp add: RunButteraugli_def Let_def)

lemma Run_read2_fails:
  "SetFromFile E p1 (hinted h) = Some io1 \<Longrightarrow> SetFromFile E p2 (hinted h) = None \<Longrightarrow>
   RunButteraugli E p1 p2 d h s =
     (Returns False,
      fprintf_stderr (Failed_to_read p2)
        (called (Call_SetFromFile p2 (hinted h)) (called (Call_SetFromFile p1 (hinted h)) s)))"
  by (simp add: RunButteraugli_def Let_def)

lemma Run_width_mismatch:
  "SetFromFile E p1 (hinted h) = Some io1 \<Longrightarrow> SetFromFile E p2 (hinted h) = Some io2 \<Longrightarrow>
   io_xsize io1 \<noteq> io_xsize io2 \<Longrightarrow>
   RunButteraugli E p1 p2 d h s =
     (Returns False,
      fprintf_stderr (Width_mismatch (io_xsize io1) (io_xsize io2))
        (called (Call_SetFromFile p2 (hinted h)) (called (Call_SetFromFile p1 (hinted h)) s)))"
  by (simp add: RunButteraugli_def Let_def)

lemma Run_height_mismatch:
  "SetFromFile E p1 (hinted h) = Some io1 \<Longrightarrow> SetFromFile E p2 (hinted h) = Some io2 \<Longrightarrow>
   io_xsize io1 = io_xsize io2 \<Longrightarrow> io_ysize io1 \<noteq> io_ysize io2 \<Longrightarrow>
   RunButteraugli E p1 p2 d h s =
     (Returns False,
      fprintf_stderr (Height_mismatch (io_ysize io1) (io_ysize io2))
        (called (Call_SetFromFile p2 (hinted h)) (called (Call_SetFromFile p1 (hinted h)) s)))"
  by (simp add: RunButteraugli_def Let_def)

lemma printf_fields [simp]:
  "printed (printf E l s) = printed s @ [l]"
  "stderr (printf E l s) = stderr s"
  "calls (printf E l s) = calls s"
  by (simp_all add: printf_def flush_stdout_def printed_def Let_def)

lemma called_fields [simp]:
  "printed (called c s) = printed s"
  "stderr (called c s) = stderr s"
  "calls (called c s) = calls s @ [c]"
  by (simp_all add: called_def printed_def)

lemma Run_compares:
  "SetFromFile E p1 (hinted h) = Some io1 \<Longrightarrow> SetFromFile E p2 (hinted h) = Some io2 \<Longrightarrow>
   io_xsize io1 = io_xsize io2 \<Longrightarrow> io_ysize io1 = io_ysize io2 \<Longrightarrow>
   fst (RunButteraugli E p1 p2 d h s) =
     (if d = [] \<or>
         heatmap_written E (snd (ButteraugliDistance E (io_Main io1) (io_Main io2) kHfAsymmetry)) d
      then Returns True else JXL_CHECK_failed) \<and>
   printed (snd (RunButteraugli E p1 p2 d h s)) = printed s @ score_lines E io1 io2 \<and>
   stderr (snd (RunButteraugli E p1 p2 d h s)) = stderr s \<and>
   take (length (calls s) + 4) (calls (snd (RunButteraugli E p1 p2 d h s))) =
     calls s @ first_calls E p1 p2 h io1 io2"
  by (simp add: RunButteraugli_def score_lines_def first_calls_def Let_def WritePNG_def
        heatmap_written_def heatmap_io_def split: prod.splits option.splits)

lemma main_runs:
  "3 \<le> length argv \<Longrightarrow>
   main E argv =
     exit_of (RunButteraugli E (argv ! 1) (argv ! 2) (distmap_option argv)
                (colorspace_option argv) start)"
  by (simp add: main_def distmap_option_def colorspace_option_def split: prod.splits)

lemma main_usage:
  "length argv < 3 \<Longrightarrow>
   main E argv =
     (Exit 1,
      flush_stdout
        (fprintf_stderr (Usage (case argv of [] \<Rightarrow> None | a # x \<Rightarrow> Some a)) start))"
  by (simp add: main_def)

lemma exit_of_fails [simp]: "exit_of (Returns False, s) = (Exit 1, flush_stdout s)"
  by (simp add: exit_of_def)

lemma flush_stdout_fields [simp]:
  "stdout (flush_stdout s) = printed s"
  "stderr (flush_stdout s) = stderr s"
  "calls (flush_stdout s) = calls s"
  by (simp_all add: flush_stdout_def printed_def)

lemma printed_start [simp]:
  "printed (fprintf_stderr d s) = printed s"
  "printed start = []"
  by (simp_all add: printed_def fprintf_stderr_def start_def)

lemma main_compares:
  assumes "3 \<le> length argv"
    and "SetFromFile E (argv ! 1) (hinted (colorspace_option argv)) = Some io1"
    and "SetFromFile E (argv ! 2) (hinted (colorspace_option argv)) = Some io2"
    and "io_xsize io1 = io_xsize io2" and "io_ysize io1 = io_ysize io2"
  shows "(if distmap_option argv = [] \<or>
             heatmap_written E
               (snd (ButteraugliDistance E (io_Main io1) (io_Main io2) kHfAsymmetry))
               (distmap_option argv)
          then fst (main E argv) = Exit 0 \<and> stdout (snd (main E argv)) = score_lines E io1 io2 \<and>
               stderr (snd (main E argv)) = []
          else fst (main E argv) = Abort) \<and>
         printed (snd (main E argv)) = score_lines E io1 io2 \<and>
         take 4 (calls (snd (main E argv))) =
           first_calls E (argv ! 1) (argv ! 2) (colorspace_option argv) io1 io2"
proof -
  let ?h = "colorspace_option argv" and ?d = "distmap_option argv"
  obtain r s where rs: "RunButteraugli E (argv ! 1) (argv ! 2) ?d ?h start = (r, s)"
    by (cases "RunButteraugli E (argv ! 1) (argv ! 2) ?d ?h start")
  from Run_compares [OF assms(2-5), of ?d start, unfolded rs fst_conv snd_conv]
  have r: "r = (if ?d = [] \<or>
                   heatmap_written E
                     (snd (ButteraugliDistance E (io_Main io1) (io_Main io2) kHfAsymmetry)) ?d
                then Returns True else JXL_CHECK_failed)"
    and p: "printed s = score_lines E io1 io2"
    and e: "stderr s = []"
    and c: "take 4 (calls s) = first_calls E (argv ! 1) (argv ! 2) ?h io1 io2"
    by (simp_all add: printed_def start_def)
  have m: "main E argv = exit_of (r, s)"
    unfolding main_runs [OF assms(1)] rs ..
  show ?thesis
    unfolding m using r p e c
    by (simp add: exit_of_def flush_stdout_def printed_def)
qed

lemma for_loop_last: "i + 1 = length argv \<Longrightarrow> for_loop argv (i, d, c) = (d, c)"
  by (subst for_loop.simps, simp add: loop_body_def, subst for_loop.simps, simp)

lemma for_loop_skip:
  "i < length argv \<Longrightarrow> argv ! i \<noteq> ''--distmap'' \<Longrightarrow> argv ! i \<noteq> ''--colorspace'' \<Longrightarrow>
   for_loop argv (i, d, c) = for_loop argv (i + 1, d, c)"
  by (subst for_loop.simps, simp add: loop_body_def)


subsection \<open>Exit codes and output\<close>

text \<open>
  C1, as the code has it.  With fewer than two arguments, an input file that cannot be
  read, or images of different width or height, the tool prints one diagnostic on standard
  error, nothing on standard output, and exits with code 1.  Otherwise, when the heat map
  name is empty (none was given) or the heat map was encoded and written, the distance and
  the 3-norm are on standard output, nothing is on standard error, and the exit code is 0;
  when the name is not empty and the heat map cannot be encoded or written, \<^verbatim>\<open>JXL_CHECK\<close>
  stops the process and \<^verbatim>\<open>main\<close> returns neither 0 nor 1.
\<close>

theorem tool_outcomes:
  "(length argv < 3 \<longrightarrow>
      fst (main E argv) = Exit 1 \<and> stdout (snd (main E argv)) = [] \<and>
      stderr (snd (main E argv)) = [Usage (case argv of [] \<Rightarrow> None | a # x \<Rightarrow> Some a)]) \<and>
   (3 \<le> length argv \<longrightarrow>
      (case SetFromFile E (argv ! 1) (hinted (colorspace_option argv)) of
         None \<Rightarrow>
           fst (main E argv) = Exit 1 \<and> stdout (snd (main E argv)) = [] \<and>
           stderr (snd (main E argv)) = [Failed_to_read (argv ! 1)]
       | Some io1 \<Rightarrow>
           (case SetFromFile E (argv ! 2) (hinted (colorspace_option argv)) of
              None \<Rightarrow>
                fst (main E argv) = Exit 1 \<and> stdout (snd (main E argv)) = [] \<and>
                stderr (snd (main E argv)) = [Failed_to_read (argv ! 2)]
            | Some io2 \<Rightarrow>
                if io_xsize io1 \<noteq> io_xsize io2 then
                  fst (main E argv) = Exit 1 \<and> stdout (snd (main E argv)) = [] \<and>
                  stderr (snd (main E argv)) = [Width_mismatch (io_xsize io1) (io_xsize io2)]
                else if io_ysize io1 \<noteq> io_ysize io2 then
                  fst (main E argv) = Exit 1 \<and> stdout (snd (main E argv)) = [] \<and>
                  stderr (snd (main E argv)) = [Height_mismatch (io_ysize io1) (io_ysize io2)]
                else if distmap_option argv = [] \<or>
                        heatmap_written E
                          (snd (ButteraugliDistance E (io_Main io1) (io_Main io2) kHfAsymmetry))
                          (distmap_option argv)
                then
                  fst (main E argv) = Exit 0 \<and>
                  stdout (snd (main E argv)) =
                    [Distance_line
                       (fst (ButteraugliDistance E (io_Main io1) (io_Main io2) kHfAsymmetry)),
                     PNorm_line 3
                       (ComputeDistanceP E
                          (snd (ButteraugliDistance E (io_Main io1) (io_Main io2) kHfAsymmetry)) 3)] \<and>
                  stderr (snd (main E argv)) = []
                else fst (main E argv) = Abort)))"
proof (intro conjI impI)
  assume short: "length argv < 3"
  show "fst (main E argv) = Exit 1" "stdout (snd (main E argv)) = []"
    "stderr (snd (main E argv)) = [Usage (case argv of [] \<Rightarrow> None | a # x \<Rightarrow> Some a)]"
    using short by (simp_all add: main_usage) (simp add: fprintf_stderr_def start_def printed_def)
next
  assume long: "3 \<le> length argv"
  let ?h = "colorspace_option argv" and ?d = "distmap_option argv"
  note m = main_runs [OF long, of E]
  show "case SetFromFile E (argv ! 1) (hinted ?h) of
         None \<Rightarrow>
           fst (main E argv) = Exit 1 \<and> stdout (snd (main E argv)) = [] \<and>
           stderr (snd (main E argv)) = [Failed_to_read (argv ! 1)]
       | Some io1 \<Rightarrow>
           (case SetFromFile E (argv ! 2) (hinted ?h) of
              None \<Rightarrow>
                fst (main E argv) = Exit 1 \<and> stdout (snd (main E argv)) = [] \<and>
                stderr (snd (main E argv)) = [Failed_to_read (argv ! 2)]
            | Some io2 \<Rightarrow>
                if io_xsize io1 \<noteq> io_xsize io2 then
                  fst (main E argv) = Exit 1 \<and> stdout (snd (main E argv)) = [] \<and>
                  stderr (snd (main E argv)) = [Width_mismatch (io_xsize io1) (io_xsize io2)]
                else if io_ysize io1 \<noteq> io_ysize io2 then
                  fst (main E argv) = Exit 1 \<and> stdout (snd (main E argv)) = [] \<and>
                  stderr (snd (main E argv)) = [Height_mismatch (io_ysize io1) (io_ysize io2)]
                else if ?d = [] \<or>
                        heatmap_written E
                          (snd (ButteraugliDistance E (io_Main io1) (io_Main io2) kHfAsymmetry)) ?d
                then
                  fst (main E argv) = Exit 0 \<and>
                  stdout (snd (main E argv)) =
                    [Distance_line
                       (fst (ButteraugliDistance E (io_Main io1) (io_Main io2) kHfAsymmetry)),
                     PNorm_line 3
                       (ComputeDistanceP E
                          (snd (ButteraugliDistance E (io_Main io1) (io_Main io2) kHfAsymmetry)) 3)] \<and>
                  stderr (snd (main E argv)) = []
                else fst (main E argv) = Abort)"
  proof (cases "SetFromFile E (argv ! 1) (hinted ?h)")
    case None
    then show ?thesis
      unfolding m Run_read1_fails [OF None]
      by (simp add: fprintf_stderr_def called_def start_def printed_def)
  next
    case r1: (Some io1)
    show ?thesis
    proof (cases "SetFromFile E (argv ! 2) (hinted ?h)")
      case None
      with r1 show ?thesis
        unfolding m Run_read2_fails [OF r1 None]
        by (simp add: fprintf_stderr_def called_def start_def printed_def)
    next
      case r2: (Some io2)
      consider (w) "io_xsize io1 \<noteq> io_xsize io2"
        | (h) "io_xsize io1 = io_xsize io2" "io_ysize io1 \<noteq> io_ysize io2"
        | (ok) "io_xsize io1 = io_xsize io2" "io_ysize io1 = io_ysize io2"
        by blast
      then show ?thesis
      proof cases
        case w
        with r1 r2 show ?thesis
          unfolding m Run_width_mismatch [OF r1 r2 w]
          by (simp add: fprintf_stderr_def called_def start_def printed_def)
      next
        case h
        with r1 r2 show ?thesis
          unfolding m Run_height_mismatch [OF r1 r2 h]
          by (simp add: fprintf_stderr_def called_def start_def printed_def)
      next
        case ok
        from main_compares [OF long r1 r2 ok] r1 r2 ok show ?thesis
          by (simp add: score_lines_def Let_def split: if_splits)
      qed
    qed
  qed
qed

theorem tool_outcomes_witness:
  "fst (main example_env [''butteraugli'', ''ref.png'', ''dist.png'']) = Exit 0 \<and>
   stdout (snd (main example_env [''butteraugli'', ''ref.png'', ''dist.png''])) =
     [Distance_line 2, PNorm_line 3 1] \<and>
   stderr (snd (main example_env [''butteraugli'', ''ref.png'', ''dist.png''])) = [] \<and>
   fst (main example_env [''butteraugli'', ''ref.png'']) = Exit 1 \<and>
   stdout (snd (main example_env [''butteraugli'', ''ref.png''])) = [] \<and>
   stderr (snd (main example_env [''butteraugli'', ''ref.png''])) = [Usage (Some ''butteraugli'')]"
proof -
  let ?argv = "[''butteraugli'', ''ref.png'', ''dist.png'']"
  let ?io1 = "SetFromImage (gray 2 2 [[1, 1], [1, 1]]) new_CodecInOut"
  let ?io2 = "SetFromImage (gray 2 2 [[1, 1], [1, 2]]) new_CodecInOut"
  have c: "colorspace_option ?argv = []"
    by (simp add: colorspace_option_def for_loop.simps loop_body_def)
  have d: "distmap_option ?argv = []"
    by (simp add: distmap_option_def for_loop.simps loop_body_def)
  have h: "hinted [] = new_CodecInOut"
    by (simp add: hinted_def)
  have r1: "SetFromFile example_env ''ref.png'' new_CodecInOut = Some ?io1"
    by (simp add: example_env_def)
  have r2: "SetFromFile example_env ''dist.png'' new_CodecInOut = Some ?io2"
    by (simp add: example_env_def)
  have x: "io_xsize ?io1 = io_xsize ?io2" and y: "io_ysize ?io1 = io_ysize ?io2"
    by (simp_all add: io_xsize_def io_ysize_def Image3_xsize_def Image3_ysize_def
          SetFromImage_def gray_def)
  have b: "ButteraugliDistance example_env a b' k = (2, example_distmap)" for a b' k
    by (simp add: example_env_def)
  have p: "ComputeDistanceP example_env dm q = 1" for dm q
    by (simp add: example_env_def)
  have long: "fst (main example_env ?argv) = Exit 0 \<and>
      stdout (snd (main example_env ?argv)) = [Distance_line 2, PNorm_line 3 1] \<and>
      stderr (snd (main example_env ?argv)) = []"
    using tool_outcomes [of ?argv example_env] by (simp add: c d h r1 r2 x y b p)
  have short: "fst (main example_env [''butteraugli'', ''ref.png'']) = Exit 1 \<and>
      stdout (snd (main example_env [''butteraugli'', ''ref.png''])) = [] \<and>
      stderr (snd (main example_env [''butteraugli'', ''ref.png''])) =
        [Usage (Some ''butteraugli'')]"
    using tool_outcomes [of "[''butteraugli'', ''ref.png'']" example_env] by simp
  from long short show ?thesis by simp
qed

text \<open>
  C1 as stated fails: both images are read and have the same size, a heat map is asked for
  with \<^verbatim>\<open>--distmap\<close>, and its file cannot be written.  The run is a failure, and the process
  exits neither with code 0 nor with code 1.
\<close>

theorem heatmap_failure_aborts:
  "fst (main example_env
          [''butteraugli'', ''ref.png'', ''dist.png'', ''--distmap'', ''/nonexistent/heat.png''])
     = Abort \<and>
   \<not> (fst (main example_env
          [''butteraugli'', ''ref.png'', ''dist.png'', ''--distmap'', ''/nonexistent/heat.png''])
        = Exit 0 \<or>
      fst (main example_env
          [''butteraugli'', ''ref.png'', ''dist.png'', ''--distmap'', ''/nonexistent/heat.png''])
        = Exit 1)"
  by (simp add: main_def for_loop.simps loop_body_def RunButteraugli_def WritePNG_def
        hinted_def example_env_def exit_of_def Let_def called_def printf_def start_def
        io_xsize_def io_ysize_def Image3_xsize_def Image3_ysize_def SetFromImage_def gray_def
        new_CodecInOut_def)


subsection \<open>Mismatched dimensions\<close>

text \<open>
  C2.  When both images are read and their widths or their heights differ, the tool exits
  with code 1, its one diagnostic names the mismatch with the two sizes (the width when
  the widths differ, else the height), nothing is printed on standard output, and the only
  calls made are the two reads: neither \<^verbatim>\<open>ButteraugliDistance\<close> nor the p-norm is called, so
  no distance map and no score is computed.
\<close>

theorem mismatch_stops_before_comparison:
  assumes "3 \<le> length argv"
    and "SetFromFile E (argv ! 1) (hinted (colorspace_option argv)) = Some io1"
    and "SetFromFile E (argv ! 2) (hinted (colorspace_option argv)) = Some io2"
    and "io_xsize io1 \<noteq> io_xsize io2 \<or> io_ysize io1 \<noteq> io_ysize io2"
  shows "fst (main E argv) = Exit 1 \<and>
         stderr (snd (main E argv)) =
           [if io_xsize io1 \<noteq> io_xsize io2
            then Width_mismatch (io_xsize io1) (io_xsize io2)
            else Height_mismatch (io_ysize io1) (io_ysize io2)] \<and>
         stdout (snd (main E argv)) = [] \<and>
         calls (snd (main E argv)) =
           [Call_SetFromFile (argv ! 1) (hinted (colorspace_option argv)),
            Call_SetFromFile (argv ! 2) (hinted (colorspace_option argv))]"
proof (cases "io_xsize io1 \<noteq> io_xsize io2")
  case True
  show ?thesis
    unfolding main_runs [OF assms(1)] Run_width_mismatch [OF assms(2,3) True]
    using True by (simp add: fprintf_stderr_def called_def start_def printed_def)
next
  case False
  then have x: "io_xsize io1 = io_xsize io2" by simp
  with assms(4) have y: "io_ysize io1 \<noteq> io_ysize io2" by simp
  show ?thesis
    unfolding main_runs [OF assms(1)] Run_height_mismatch [OF assms(2,3) x y]
    using x by (simp add: fprintf_stderr_def called_def start_def printed_def)
qed

theorem mismatch_stops_before_comparison_witness:
  "fst (main example_env [''butteraugli'', ''ref.png'', ''wide.png'']) = Exit 1 \<and>
   stderr (snd (main example_env [''butteraugli'', ''ref.png'', ''wide.png''])) =
     [Width_mismatch 2 3] \<and>
   stdout (snd (main example_env [''butteraugli'', ''ref.png'', ''wide.png''])) = [] \<and>
   calls (snd (main example_env [''butteraugli'', ''ref.png'', ''wide.png''])) =
     [Call_SetFromFile ''ref.png'' new_CodecInOut, Call_SetFromFile ''wide.png'' new_CodecInOut]"
proof -
  let ?argv = "[''butteraugli'', ''ref.png'', ''wide.png'']"
  let ?io1 = "SetFromImage (gray 2 2 [[1, 1], [1, 1]]) new_CodecInOut"
  let ?io2 = "SetFromImage (gray 3 2 [[1, 1, 1], [1, 1, 1]]) new_CodecInOut"
  have c: "colorspace_option ?argv = []"
    by (simp add: colorspace_option_def for_loop.simps loop_body_def)
  have h: "hinted (colorspace_option ?argv) = new_CodecInOut"
    by (simp add: c hinted_def)
  have l: "3 \<le> length ?argv" by simp
  have r1: "SetFromFile example_env (?argv ! 1) (hinted (colorspace_option ?argv)) = Some ?io1"
    by (simp add: h example_env_def)
  have r2: "SetFromFile example_env (?argv ! 2) (hinted (colorspace_option ?argv)) = Some ?io2"
    by (simp add: h example_env_def)
  have x1: "io_xsize ?io1 = 2" and x2: "io_xsize ?io2 = 3"
    by (simp_all add: io_xsize_def Image3_xsize_def SetFromImage_def gray_def)
  have d: "io_xsize ?io1 \<noteq> io_xsize ?io2 \<or> io_ysize ?io1 \<noteq> io_ysize ?io2"
    by (simp add: x1 x2)
  show ?thesis
    using mismatch_stops_before_comparison [OF l r1 r2 d] by (simp add: h x1 x2)
qed


subsection \<open>The constants of the comparison\<close>

text \<open>
  C4.  When both images are read and have the same size, the tool calls
  \<^verbatim>\<open>ButteraugliDistance\<close> on them with the asymmetry factor 0.8, then pools the distance map
  that call returned with the norm of order p = 3, and hands the two results to \<^verbatim>\<open>printf\<close>;
  they are on standard output unless a \<^verbatim>\<open>JXL_CHECK\<close> stopped the process.
\<close>

theorem tool_asymmetry_and_norm:
  assumes "3 \<le> length argv"
    and "SetFromFile E (argv ! 1) (hinted (colorspace_option argv)) = Some io1"
    and "SetFromFile E (argv ! 2) (hinted (colorspace_option argv)) = Some io2"
    and "io_xsize io1 = io_xsize io2" and "io_ysize io1 = io_ysize io2"
  shows "kHfAsymmetry = 0.8 \<and>
         take 4 (calls (snd (main E argv))) =
           [Call_SetFromFile (argv ! 1) (hinted (colorspace_option argv)),
            Call_SetFromFile (argv ! 2) (hinted (colorspace_option argv)),
            Call_ButteraugliDistance (io_Main io1) (io_Main io2) 0.8,
            Call_ComputeDistanceP
              (snd (ButteraugliDistance E (io_Main io1) (io_Main io2) 0.8)) 3] \<and>
         printed (snd (main E argv)) =
           [Distance_line (fst (ButteraugliDistance E (io_Main io1) (io_Main io2) 0.8)),
            PNorm_line 3
              (ComputeDistanceP E
                 (snd (ButteraugliDistance E (io_Main io1) (io_Main io2) 0.8)) 3)] \<and>
         (fst (main E argv) = Abort \<or>
          stdout (snd (main E argv)) =
            [Distance_line (fst (ButteraugliDistance E (io_Main io1) (io_Main io2) 0.8)),
             PNorm_line 3
               (ComputeDistanceP E
                  (snd (ButteraugliDistance E (io_Main io1) (io_Main io2) 0.8)) 3)])"
  using main_compares [OF assms]
  by (simp add: score_lines_def first_calls_def Let_def kHfAsymmetry_def split: if_splits)

theorem tool_asymmetry_and_norm_witness:
  "take 4 (calls (snd (main example_env [''butteraugli'', ''ref.png'', ''dist.png'']))) =
     [Call_SetFromFile ''ref.png'' new_CodecInOut,
      Call_SetFromFile ''dist.png'' new_CodecInOut,
      Call_ButteraugliDistance (gray 2 2 [[1, 1], [1, 1]]) (gray 2 2 [[1, 1], [1, 2]]) 0.8,
      Call_ComputeDistanceP example_distmap 3] \<and>
   printed (snd (main example_env [''butteraugli'', ''ref.png'', ''dist.png''])) =
     [Distance_line 2, PNorm_line 3 1] \<and>
   stdout (snd (main example_env [''butteraugli'', ''ref.png'', ''dist.png''])) =
     [Distance_line 2, PNorm_line 3 1]"
proof -
  let ?argv = "[''butteraugli'', ''ref.png'', ''dist.png'']"
  let ?io1 = "SetFromImage (gray 2 2 [[1, 1], [1, 1]]) new_CodecInOut"
  let ?io2 = "SetFromImage (gray 2 2 [[1, 1], [1, 2]]) new_CodecInOut"
  have c: "colorspace_option ?argv = []"
    by (simp add: colorspace_option_def for_loop.simps loop_body_def)
  have h: "hinted (colorspace_option ?argv) = new_CodecInOut"
    by (simp add: c hinted_def)
  have l: "3 \<le> length ?argv" by simp
  have r1: "SetFromFile example_env (?argv ! 1) (hinted (colorspace_option ?argv)) = Some ?io1"
    by (simp add: h example_env_def)
  have r2: "SetFromFile example_env (?argv ! 2) (hinted (colorspace_option ?argv)) = Some ?io2"
    by (simp add: h example_env_def)
  have x: "io_xsize ?io1 = io_xsize ?io2" and y: "io_ysize ?io1 = io_ysize ?io2"
    by (simp_all add: io_xsize_def io_ysize_def Image3_xsize_def Image3_ysize_def
          SetFromImage_def gray_def)
  have b: "ButteraugliDistance example_env a b' k = (2, example_distmap)" for a b' k
    by (simp add: example_env_def)
  have p: "ComputeDistanceP example_env dm q = 1" for dm q
    by (simp add: example_env_def)
  have e: "fst (main example_env ?argv) \<noteq> Abort"
    by (simp add: main_def for_loop.simps loop_body_def RunButteraugli_def hinted_def
          example_env_def exit_of_def Let_def io_xsize_def io_ysize_def Image3_xsize_def
          Image3_ysize_def SetFromImage_def gray_def)
  show ?thesis
    using tool_asymmetry_and_norm [OF l r1 r2 x y] e by (simp add: h b p SetFromImage_def)
qed


subsection \<open>How main reads its arguments\<close>

lemma loop_body_distmap_at_2:
  "3 < length argv \<Longrightarrow> argv ! 2 = ''--distmap'' \<Longrightarrow>
   fst (snd (loop_body argv (2, d, c))) = argv ! 3"
  by (simp add: loop_body_def Let_def split: prod.splits if_splits)

lemma loop_body_colorspace_at_2:
  "3 < length argv \<Longrightarrow> argv ! 2 = ''--colorspace'' \<Longrightarrow>
   snd (snd (loop_body argv (2, d, c))) = argv ! 3"
  by (simp add: loop_body_def Let_def split: prod.splits if_splits)

lemma for_loop_distmap_4:
  "length argv = 4 \<Longrightarrow> argv ! 2 = ''--distmap'' \<Longrightarrow>
   for_loop argv (2, [], []) = (argv ! 3, [])"
  by (subst for_loop.simps, simp add: loop_body_def, subst for_loop.simps, simp)

lemma for_loop_colorspace_4:
  "length argv = 4 \<Longrightarrow> argv ! 2 = ''--colorspace'' \<Longrightarrow>
   for_loop argv (2, [], []) = ([], argv ! 3)"
  by (subst for_loop.simps, simp add: loop_body_def, subst for_loop.simps, simp)

text \<open>
  C10.  With at least two arguments, \<^verbatim>\<open>main\<close> passes \<^verbatim>\<open>argv[1]\<close> and \<^verbatim>\<open>argv[2]\<close> to
  \<^verbatim>\<open>RunButteraugli\<close> as the two paths whatever they are, and the option loop starts at index
  2 as well.  So a \<^verbatim>\<open>--distmap\<close> or \<^verbatim>\<open>--colorspace\<close> at index 2 that is followed by a value
  takes that value as its option in the first turn of the loop and is also the path of the
  distorted image (shown for the loop's first turn in general, and for the whole run when
  there are exactly four arguments).  The last argument never changes the options, flag or
  not, and an argument that is neither flag is passed over.  The loop prints nothing.
\<close>

theorem argument_scanning:
  "(3 \<le> length argv \<longrightarrow>
      main E argv =
        exit_of (RunButteraugli E (argv ! 1) (argv ! 2) (fst (for_loop argv (2, [], [])))
                   (snd (for_loop argv (2, [], []))) start)) \<and>
   (3 < length argv \<and> argv ! 2 = ''--distmap'' \<longrightarrow>
      for_loop argv (2, d, c) = for_loop argv (loop_body argv (2, d, c)) \<and>
      fst (snd (loop_body argv (2, d, c))) = argv ! 3) \<and>
   (3 < length argv \<and> argv ! 2 = ''--colorspace'' \<longrightarrow>
      for_loop argv (2, d, c) = for_loop argv (loop_body argv (2, d, c)) \<and>
      snd (snd (loop_body argv (2, d, c))) = argv ! 3) \<and>
   (length argv = 4 \<and> argv ! 2 = ''--distmap'' \<longrightarrow>
      main E argv = exit_of (RunButteraugli E (argv ! 1) ''--distmap'' (argv ! 3) [] start)) \<and>
   (length argv = 4 \<and> argv ! 2 = ''--colorspace'' \<longrightarrow>
      main E argv = exit_of (RunButteraugli E (argv ! 1) ''--colorspace'' [] (argv ! 3) start)) \<and>
   (i + 1 = length argv \<longrightarrow> for_loop argv (i, d, c) = (d, c)) \<and>
   (i < length argv \<and> argv ! i \<noteq> ''--distmap'' \<and> argv ! i \<noteq> ''--colorspace'' \<longrightarrow>
      for_loop argv (i, d, c) = for_loop argv (i + 1, d, c))"
proof (intro conjI impI; (elim conjE)?)
  assume "3 \<le> length argv"
  then show "main E argv =
      exit_of (RunButteraugli E (argv ! 1) (argv ! 2) (fst (for_loop argv (2, [], [])))
                 (snd (for_loop argv (2, [], []))) start)"
    by (simp add: main_def split: prod.splits)
next
  assume "3 < length argv" "argv ! 2 = ''--distmap''"
  then show "for_loop argv (2, d, c) = for_loop argv (loop_body argv (2, d, c))"
    by (subst for_loop.simps) simp
next
  assume "3 < length argv" "argv ! 2 = ''--distmap''"
  then show "fst (snd (loop_body argv (2, d, c))) = argv ! 3"
    by (rule loop_body_distmap_at_2)
next
  assume "3 < length argv" "argv ! 2 = ''--colorspace''"
  then show "for_loop argv (2, d, c) = for_loop argv (loop_body argv (2, d, c))"
    by (subst for_loop.simps) simp
next
  assume "3 < length argv" "argv ! 2 = ''--colorspace''"
  then show "snd (snd (loop_body argv (2, d, c))) = argv ! 3"
    by (rule loop_body_colorspace_at_2)
next
  assume a: "length argv = 4" "argv ! 2 = ''--distmap''"
  then have l: "3 \<le> length argv" by simp
  show "main E argv = exit_of (RunButteraugli E (argv ! 1) ''--distmap'' (argv ! 3) [] start)"
    unfolding main_runs [OF l] distmap_option_def colorspace_option_def
      for_loop_distmap_4 [OF a] using a by simp
next
  assume a: "length argv = 4" "argv ! 2 = ''--colorspace''"
  then have l: "3 \<le> length argv" by simp
  show "main E argv = exit_of (RunButteraugli E (argv ! 1) ''--colorspace'' [] (argv ! 3) start)"
    unfolding main_runs [OF l] distmap_option_def colorspace_option_def
      for_loop_colorspace_4 [OF a] using a by simp
next
  assume "i + 1 = length argv"
  then show "for_loop argv (i, d, c) = (d, c)"
    by (rule for_loop_last)
next
  assume "i < length argv" "argv ! i \<noteq> ''--distmap''" "argv ! i \<noteq> ''--colorspace''"
  then show "for_loop argv (i, d, c) = for_loop argv (i + 1, d, c)"
    by (rule for_loop_skip)
qed

theorem argument_scanning_witness:
  "main example_env [''butteraugli'', ''ref.png'', ''--distmap'', ''heat.png''] =
     exit_of (RunButteraugli example_env ''ref.png'' ''--distmap'' ''heat.png'' [] start) \<and>
   fst (snd (loop_body [''butteraugli'', ''ref.png'', ''--distmap'', ''heat.png''] (2, [], [])))
     = ''heat.png'' \<and>
   main example_env [''butteraugli'', ''ref.png'', ''--colorspace'', ''RGB_D65_SRG_Rel_Lin''] =
     exit_of (RunButteraugli example_env ''ref.png'' ''--colorspace'' []
                ''RGB_D65_SRG_Rel_Lin'' start) \<and>
   snd (snd (loop_body [''butteraugli'', ''ref.png'', ''--colorspace'', ''RGB_D65_SRG_Rel_Lin'']
               (2, [], [])))
     = ''RGB_D65_SRG_Rel_Lin'' \<and>
   for_loop [''butteraugli'', ''ref.png'', ''dist.png'', ''--distmap''] (3, [], []) = ([], []) \<and>
   for_loop [''butteraugli'', ''ref.png'', ''dist.png'', ''-v''] (2, [], []) =
     for_loop [''butteraugli'', ''ref.png'', ''dist.png'', ''-v''] (3, [], [])"
proof -
  note t1 = argument_scanning
      [of "[''butteraugli'', ''ref.png'', ''--distmap'', ''heat.png'']" example_env "[]" "[]" 3]
  note t2 = argument_scanning
      [of "[''butteraugli'', ''ref.png'', ''--colorspace'', ''RGB_D65_SRG_Rel_Lin'']"
          example_env "[]" "[]" 3]
  note t3 = argument_scanning
      [of "[''butteraugli'', ''ref.png'', ''dist.png'', ''--distmap'']" example_env "[]" "[]" 3]
  note t4 = argument_scanning
      [of "[''butteraugli'', ''ref.png'', ''dist.png'', ''-v'']" example_env "[]" "[]" 2]
  have a: "main example_env [''butteraugli'', ''ref.png'', ''--distmap'', ''heat.png''] =
       exit_of (RunButteraugli example_env ''ref.png'' ''--distmap'' ''heat.png'' [] start)"
    using t1 [THEN conjunct2, THEN conjunct2, THEN conjunct2, THEN conjunct1] by simp
  have a': "fst (snd (loop_body [''butteraugli'', ''ref.png'', ''--distmap'', ''heat.png'']
                        (2, [], []))) = ''heat.png''"
    using t1 [THEN conjunct2, THEN conjunct1] by simp
  have b: "main example_env
         [''butteraugli'', ''ref.png'', ''--colorspace'', ''RGB_D65_SRG_Rel_Lin''] =
       exit_of (RunButteraugli example_env ''ref.png'' ''--colorspace'' []
                  ''RGB_D65_SRG_Rel_Lin'' start)"
    using t2 [THEN conjunct2, THEN conjunct2, THEN conjunct2, THEN conjunct2, THEN conjunct1]
    by simp
  have b': "snd (snd (loop_body
         [''butteraugli'', ''ref.png'', ''--colorspace'', ''RGB_D65_SRG_Rel_Lin'']
         (2, [], []))) = ''RGB_D65_SRG_Rel_Lin''"
    using t2 [THEN conjunct2, THEN conjunct2, THEN conjunct1] by simp
  have c: "for_loop [''butteraugli'', ''ref.png'', ''dist.png'', ''--distmap''] (3, [], [])
      = ([], [])"
    using t3 [THEN conjunct2, THEN conjunct2, THEN conjunct2, THEN conjunct2, THEN conjunct2,
              THEN conjunct1]
    by simp
  have d: "for_loop [''butteraugli'', ''ref.png'', ''dist.png'', ''-v''] (2, [], []) =
      for_loop [''butteraugli'', ''ref.png'', ''dist.png'', ''-v''] (3, [], [])"
    using t4 [THEN conjunct2, THEN conjunct2, THEN conjunct2, THEN conjunct2, THEN conjunct2,
              THEN conjunct2]
    by simp
  from a a' b b' c d show ?thesis by (intro conjI)
qed


section \<open>Pooling is monotone\<close>

lemma list_all2_concat:
  "list_all2 (list_all2 P) xss yss \<Longrightarrow> list_all2 P (concat xss) (concat yss)"
  by (induction xss yss rule: list_all2_induct) (auto intro: list_all2_appendI)

lemma sum_list_power_mono:
  fixes xs ys :: "real list"
  assumes "list_all2 (\<lambda>x y. y \<le> x) xs ys" and "list_all (\<lambda>v. 0 \<le> v) ys \<or> odd p"
  shows "(\<Sum>v\<leftarrow>ys. v ^ p) \<le> (\<Sum>v\<leftarrow>xs. v ^ p)"
  using assms
proof (induction xs ys rule: list_all2_induct)
  case Nil
  then show ?case by simp
next
  case (Cons x xs y ys)
  have "y ^ p \<le> x ^ p"
  proof (cases "odd p")
    case True
    with Cons.hyps(1) show ?thesis by (simp add: power_mono_odd)
  next
    case False
    with Cons.prems have "0 \<le> y" by simp
    with Cons.hyps(1) show ?thesis by (simp add: power_mono)
  qed
  moreover have "(\<Sum>v\<leftarrow>ys. v ^ p) \<le> (\<Sum>v\<leftarrow>xs. v ^ p)"
    using Cons.IH Cons.prems by auto
  ultimately show ?case by simp
qed

text \<open>
  C9.  If difference map A dominates difference map B at every pixel, the pooled score of
  A is at least the pooled score of B, for every order p > 0 when B's values are
  nonnegative (as difference maps are), and for every odd order, such as the reference
  p = 3, whatever the signs.
\<close>

theorem pooling_monotone:
  assumes "0 < p" and "dominates a b" and "nonnegative b \<or> odd p"
  shows "pnorm_pool p b \<le> pnorm_pool p a"
proof -
  from assms(2) have "list_all2 (\<lambda>x y. y \<le> x) (pixels a) (pixels b)"
    unfolding dominates_def pixels_def by (rule list_all2_concat)
  moreover from assms(3) have "list_all (\<lambda>v. 0 \<le> v) (pixels b) \<or> odd p"
    by (simp add: nonnegative_def)
  ultimately have "(\<Sum>v\<leftarrow>pixels b. v ^ p) \<le> (\<Sum>v\<leftarrow>pixels a. v ^ p)"
    by (rule sum_list_power_mono)
  with assms(1) show ?thesis
    by (simp add: pnorm_pool_def)
qed

theorem pooling_monotone_witness:
  "dominates \<lparr>xsize = 2, ysize = 1, rows = [[2, 1]]\<rparr> \<lparr>xsize = 2, ysize = 1, rows = [[1, 0]]\<rparr> \<and>
   nonnegative \<lparr>xsize = 2, ysize = 1, rows = [[1, 0]]\<rparr> \<and>
   pnorm_pool 3 \<lparr>xsize = 2, ysize = 1, rows = [[1, 0]]\<rparr>
     \<le> pnorm_pool 3 \<lparr>xsize = 2, ysize = 1, rows = [[2, 1]]\<rparr>"
proof -
  let ?a = "\<lparr>xsize = 2, ysize = 1, rows = [[2, 1 :: real]]\<rparr>"
  let ?b = "\<lparr>xsize = 2, ysize = 1, rows = [[1, 0 :: real]]\<rparr>"
  have p: "0 < (3 :: nat)" by simp
  have d: "dominates ?a ?b" by (simp add: dominates_def)
  have n: "nonnegative ?b" by (simp add: nonnegative_def pixels_def)
  then have n': "nonnegative ?b \<or> odd (3 :: nat)" by simp
  from d n pooling_monotone [OF p d n'] show ?thesis by simp
qed

end
